theory Spec2Isabelle
  imports Complex_Main "HOL-Library.Log_Nat"
begin

section \<open>The study-flow workflow of lc-studylab\<close>

text \<open>
  The development follows \<^verbatim>\<open>backend/workflows\<close>: the state of
  \<^verbatim>\<open>state.py\<close>, the five nodes under \<^verbatim>\<open>nodes/\<close> and the graph of
  \<^verbatim>\<open>study_flow_graph.py\<close>.

  Conventions of the embedding.
  \<^item> A Python \<^verbatim>\<open>str\<close> is a \<open>string\<close>. Case mapping, whitespace and digits are those of
    ASCII (with the separators 28 to 31, which Python counts as whitespace); a character
    beyond ASCII stands as its UTF-8 bytes, which the string functions leave alone.
  \<^item> An exception is a value of \<open>exn\<close>; code that may raise returns \<open>exn + 'a\<close>.
  \<^item> The language model, the vector index and the retriever are parameters (\<open>env\<close>):
    each call may return a value or raise.
  \<^item> A node returns a partial update, a list of field assignments in the order of the
    returned dict; the graph merges it into the state by replacement.
  \<^item> The fields \<^verbatim>\<open>messages\<close>, \<^verbatim>\<open>created_at\<close> and \<^verbatim>\<open>updated_at\<close> (prose and
    wall-clock time) are left out; the commentary strings of a score detail are a datatype.
  \<^item> A Python \<^verbatim>\<open>float\<close> is the rational it denotes; each floating-point operation
    is the exact operation followed by rounding to the nearest double (\<open>fl\<close>).
\<close>

subsection \<open>Exceptions\<close>

datatype exn =
    ValueError
  | IndexError
  | KeyError
  | TypeError
  | AttributeError
  | ZeroDivisionError
  | FileNotFoundError
  | CapabilityError string
  | GraphRecursionError
  | NotFoundError

subsection \<open>Python floats\<close>

text \<open>
  A finite double is the rational it denotes. \<open>fl\<close> rounds a rational to the nearest
  double, ties to even, with a 53-bit significand; it is exact about IEEE 754 in the normal
  range (magnitudes from \<open>2 ^ -1022\<close> up to \<open>2 ^ 1024\<close>), which covers every quotient
  and product of the points and counts below. \<open>bit_length\<close> is Python's
  \<^verbatim>\<open>int.bit_length\<close> on non-negative integers.
\<close>

definition pow2 :: "int \<Rightarrow> rat" where
  "pow2 k = (if 0 \<le> k then 2 ^ nat k else 1 / 2 ^ nat (- k))"

function bit_length :: "int \<Rightarrow> int" where
  "bit_length n = (if n \<le> 0 then 0 else bit_length (n div 2) + 1)"
  by auto
termination
  by (relation "measure nat") auto

text \<open>The exponent \<open>e\<close> with \<open>2 ^ e \<le> x < 2 ^ (e + 1)\<close>, for positive \<open>x\<close>.\<close>

definition ilog2 :: "rat \<Rightarrow> int" where
  "ilog2 x =
     (let (p, q) = quotient_of x;
          k = bit_length p - bit_length q
      in if pow2 k \<le> x then k else k - 1)"

definition round_half_even :: "rat \<Rightarrow> int" where
  "round_half_even m =
     (let f = \<lfloor>m\<rfloor>; r = m - of_int f
      in if r < 1 / 2 then f
         else if 1 / 2 < r then f + 1
         else if even f then f else f + 1)"

definition fl :: "rat \<Rightarrow> rat" where
  "fl x =
     (if x = 0 then 0
      else let a = \<bar>x\<bar>;
               u = pow2 (ilog2 a - 52);
               m = of_int (round_half_even (a / u)) * u
           in if x < 0 then - m else m)"

text \<open>\<^verbatim>\<open>int(x)\<close> on a float truncates toward zero.\<close>

definition py_int :: "rat \<Rightarrow> int" where
  "py_int x = (if 0 \<le> x then \<lfloor>x\<rfloor> else \<lceil>x\<rceil>)"

text \<open>\<^verbatim>\<open>a / b\<close> on two ints (true division, correctly rounded), for \<open>b \<noteq> 0\<close>.\<close>

definition true_div :: "int \<Rightarrow> int \<Rightarrow> rat" where
  "true_div a b = fl (of_int a / of_int b)"

text \<open>\<^verbatim>\<open>x * n\<close> of a float and an int: the int is converted, the product rounded.\<close>

definition float_times_int :: "rat \<Rightarrow> int \<Rightarrow> rat" where
  "float_times_int x n = fl (x * fl (of_int n))"

subsection \<open>Python strings\<close>

definition isspace :: "char \<Rightarrow> bool" where
  "isspace c = (of_char c \<in> {9, 10, 11, 12, 13, 28, 29, 30, 31, 32 :: nat})"

definition isdigit :: "char \<Rightarrow> bool" where
  "isdigit c = (48 \<le> (of_char c :: nat) \<and> (of_char c :: nat) \<le> 57)"

definition lower_char :: "char \<Rightarrow> char" where
  "lower_char c =
     (let n = of_char c :: nat in if 65 \<le> n \<and> n \<le> 90 then char_of (n + 32) else c)"

definition upper_char :: "char \<Rightarrow> char" where
  "upper_char c =
     (let n = of_char c :: nat in if 97 \<le> n \<and> n \<le> 122 then char_of (n - 32) else c)"

definition lower :: "string \<Rightarrow> string" where
  "lower s = map lower_char s"

definition upper :: "string \<Rightarrow> string" where
  "upper s = map upper_char s"

definition strip :: "string \<Rightarrow> string" where
  "strip s = rev (dropWhile isspace (rev (dropWhile isspace s)))"

fun starts_with :: "string \<Rightarrow> string \<Rightarrow> bool" where
  "starts_with [] s = True"
| "starts_with (k # ks) [] = False"
| "starts_with (k # ks) (c # cs) = (k = c \<and> starts_with ks cs)"

text \<open>\<^verbatim>\<open>kw in s\<close> on two strings: \<open>kw\<close> occurs in \<open>s\<close> as a contiguous piece.\<close>

fun substring :: "string \<Rightarrow> string \<Rightarrow> bool" where
  "substring kw [] = (kw = [])"
| "substring kw (c # cs) = (starts_with kw (c # cs) \<or> substring kw cs)"

text \<open>\<^verbatim>\<open>s.split(d)\<close> for a one-character separator: empty pieces are kept.\<close>

fun split_on :: "char \<Rightarrow> string \<Rightarrow> string list" where
  "split_on d [] = [[]]"
| "split_on d (c # cs) =
     (if c = d then [] # split_on d cs
      else (case split_on d cs of [] \<Rightarrow> [[c]] | w # ws \<Rightarrow> (c # w) # ws))"

text \<open>\<^verbatim>\<open>s.split()\<close>: the maximal runs of non-whitespace; \<open>cur\<close> is the run being read.\<close>

fun split_words :: "string \<Rightarrow> string \<Rightarrow> string list" where
  "split_words [] cur = (if cur = [] then [] else [rev cur])"
| "split_words (c # cs) cur =
     (if isspace c then (if cur = [] then split_words cs [] else rev cur # split_words cs [])
      else split_words cs (c # cur))"

definition split :: "string \<Rightarrow> string list" where
  "split s = split_words s []"

text \<open>\<^verbatim>\<open>s.split(':', 1)[1]\<close>: what follows the first colon, \<open>None\<close> for the IndexError.\<close>

fun after_colon :: "string \<Rightarrow> string option" where
  "after_colon [] = None"
| "after_colon (c # cs) = (if c = CHR '':'' then Some cs else after_colon cs)"

definition int_of_digits :: "string \<Rightarrow> int" where
  "int_of_digits ds = foldl (\<lambda>acc c. 10 * acc + (int (of_char c) - 48)) 0 ds"

subsection \<open>The state (state.py)\<close>

record learning_plan =
  topic :: string
  objectives :: "string list"
  key_points :: "string list"
  difficulty :: string
  estimated_time :: int

record retrieved_document =
  content :: string
  metadata :: string
  relevance_score :: rat

record quiz_question =
  q_id :: string
  q_type :: string
  question :: string
  options :: "string list option"
  answer :: string
  explanation :: string
  points :: int

record quiz =
  questions :: "quiz_question list"
  total_points :: int
  time_limit :: int

text \<open>The commentary of one graded question: the source builds a sentence from these.\<close>

datatype commentary =
    AnsweredRight
  | AnsweredWrong string
  | ModelComment string
  | KeywordMatch string
  | UnknownType

record score_detail =
  question_id :: string
  user_answer :: string
  correct_answer :: string
  is_correct :: bool
  points_earned :: int
  points_possible :: int
  detail_feedback :: commentary

record score_details =
  correct_count :: nat
  total_count :: nat
  question_scores :: "score_detail list"

text \<open>
  \<^verbatim>\<open>user_answers\<close> is a dict from question id to answer text, here an association
  list read with \<open>map_of\<close>; the empty dict is \<open>[]\<close>.
\<close>

record study_flow_state =
  user_question :: string
  learning_plan :: "learning_plan option"
  retrieved_docs :: "retrieved_document list option"
  quiz :: "quiz option"
  user_answers :: "(string \<times> string) list option"
  score :: "int option"
  score_details :: "score_details option"
  feedback :: "string option"
  retry_count :: int
  should_retry :: bool
  current_step :: string
  thread_id :: string
  error :: "(string \<times> exn) option"
  error_node :: "string option"

text \<open>
  The \<^verbatim>\<open>error\<close> string of the source is a fixed prefix naming the failed node followed
  by \<^verbatim>\<open>str(e)\<close>; here it is the pair of the node's name and the exception.
\<close>

subsection \<open>Partial updates and their merge\<close>

datatype assignment =
    Set_learning_plan learning_plan
  | Set_retrieved_docs "retrieved_document list"
  | Set_quiz quiz
  | Set_user_answers "(string \<times> string) list"
  | Set_score int
  | Set_score_details score_details
  | Set_feedback string
  | Set_should_retry bool
  | Set_retry_count int
  | Set_current_step string
  | Set_error "string \<times> exn"
  | Set_error_node string

type_synonym update = "assignment list"

fun assign :: "study_flow_state \<Rightarrow> assignment \<Rightarrow> study_flow_state" where
  "assign s (Set_learning_plan p) = s\<lparr>learning_plan := Some p\<rparr>"
| "assign s (Set_retrieved_docs d) = s\<lparr>retrieved_docs := Some d\<rparr>"
| "assign s (Set_quiz q) = s\<lparr>quiz := Some q\<rparr>"
| "assign s (Set_user_answers a) = s\<lparr>user_answers := Some a\<rparr>"
| "assign s (Set_score n) = s\<lparr>score := Some n\<rparr>"
| "assign s (Set_score_details d) = s\<lparr>score_details := Some d\<rparr>"
| "assign s (Set_feedback f) = s\<lparr>feedback := Some f\<rparr>"
| "assign s (Set_should_retry b) = s\<lparr>should_retry := b\<rparr>"
| "assign s (Set_retry_count n) = s\<lparr>retry_count := n\<rparr>"
| "assign s (Set_current_step c) = s\<lparr>current_step := c\<rparr>"
| "assign s (Set_error e) = s\<lparr>error := Some e\<rparr>"
| "assign s (Set_error_node n) = s\<lparr>error_node := Some n\<rparr>"

definition merge :: "study_flow_state \<Rightarrow> update \<Rightarrow> study_flow_state" where
  "merge s u = foldl assign s u"

subsection \<open>The capabilities\<close>

text \<open>
  What a prompt is built from stands for the prompt. The grading prompt holds the
  question text, the standard answer, the user's answer and the points of the question;
  the feedback prompt holds the plan, the score and the score details; the quiz prompt
  holds the plan and the excerpts of the documents.
\<close>

type_synonym grading_prompt = "string \<times> string \<times> string \<times> int"

type_synonym feedback_prompt = "learning_plan \<times> int option \<times> score_details"

record chat_model =
  invoke_plan :: "string \<Rightarrow> exn + learning_plan"
  invoke_quiz :: "learning_plan \<Rightarrow> string list \<Rightarrow> exn + quiz"
  invoke_grading :: "grading_prompt \<Rightarrow> exn + string"
  invoke_feedback :: "feedback_prompt \<Rightarrow> exn + string"

record document =
  page_content :: string
  doc_metadata :: string

type_synonym retriever = "string \<Rightarrow> exn + document list"

text \<open>
  \<open>get_chat_model\<close> is \<^verbatim>\<open>get_chat_model()\<close>; \<open>get_embeddings\<close> is the pair of calls
  \<^verbatim>\<open>IndexManager()\<close> and \<^verbatim>\<open>get_embeddings()\<close> (an exception of either, or none);
  \<open>load_index\<close> is \<^verbatim>\<open>load_index\<close> followed by \<^verbatim>\<open>create_retriever\<close>.
\<close>

record env =
  get_chat_model :: "exn + chat_model"
  get_embeddings :: "exn option"
  load_index :: "exn + retriever"

subsection \<open>planner_node\<close>

definition planner_node :: "env \<Rightarrow> study_flow_state \<Rightarrow> update" where
  "planner_node env state =
     (case (case get_chat_model env of
              Inl e \<Rightarrow> Inl e
            | Inr model \<Rightarrow> invoke_plan model (user_question state)) of
        Inr plan_response \<Rightarrow>
          [Set_learning_plan plan_response, Set_current_step ''planner'']
      | Inl e \<Rightarrow>
          [Set_error (''planner'', e), Set_error_node ''planner'',
           Set_current_step ''planner_error''])"

subsection \<open>retrieval_node\<close>

text \<open>The documents of the main query, scored \<^verbatim>\<open>1.0 - (i * 0.1)\<close> by rank.\<close>

definition rank_score :: "nat \<Rightarrow> rat" where
  "rank_score i = fl (1 - float_times_int (fl (1 / 10)) (int i))"

definition ranked :: "document list \<Rightarrow> retrieved_document list" where
  "ranked docs =
     map (\<lambda>(i, doc). \<lparr>content = page_content doc, metadata = doc_metadata doc,
                        relevance_score = rank_score i\<rparr>)
         (enumerate 0 docs)"

text \<open>One supplementary hit: appended unless its content is already there.\<close>

definition add_new :: "retrieved_document list \<Rightarrow> document \<Rightarrow> retrieved_document list" where
  "add_new retrieved doc =
     (if page_content doc \<in> set (map content retrieved) then retrieved
      else retrieved @ [\<lparr>content = page_content doc, metadata = doc_metadata doc,
                          relevance_score = fl (7 / 10)\<rparr>])"

text \<open>
  The supplementary loop over the key points: an exception of the retriever ends the loop
  and keeps what was gathered (the inner \<^verbatim>\<open>except\<close> only logs).
\<close>

fun supplement ::
  "retriever \<Rightarrow> string list \<Rightarrow> retrieved_document list \<Rightarrow> retrieved_document list" where
  "supplement r [] retrieved = retrieved"
| "supplement r (point # rest) retrieved =
     (case r point of
        Inl e \<Rightarrow> retrieved
      | Inr additional_docs \<Rightarrow> supplement r rest (foldl add_new retrieved (take 2 additional_docs)))"

text \<open>
  The body of the outer \<^verbatim>\<open>try\<close>. The inner \<^verbatim>\<open>try\<close> turns a
  \<^verbatim>\<open>FileNotFoundError\<close> of the index or of the main query into no documents.
\<close>

definition retrieve :: "env \<Rightarrow> study_flow_state \<Rightarrow> exn + retrieved_document list" where
  "retrieve env state =
     (case learning_plan state of
        None \<Rightarrow> Inl ValueError
      | Some plan \<Rightarrow>
          (case get_embeddings env of
             Some e \<Rightarrow> Inl e
           | None \<Rightarrow>
               (case (case load_index env of
                        Inl e \<Rightarrow> Inl e
                      | Inr r \<Rightarrow> (case r (topic plan) of
                                    Inl e \<Rightarrow> Inl e
                                  | Inr docs \<Rightarrow> Inr (r, docs))) of
                  Inl e \<Rightarrow> (if e = FileNotFoundError then Inr [] else Inl e)
                | Inr (r, docs) \<Rightarrow>
                    (let retrieved_docs = ranked docs
                     in if length retrieved_docs < 3 \<and> key_points plan \<noteq> [] \<and> docs \<noteq> []
                        then Inr (supplement r (take 2 (key_points plan)) retrieved_docs)
                        else Inr retrieved_docs))))"

definition retrieval_node :: "env \<Rightarrow> study_flow_state \<Rightarrow> update" where
  "retrieval_node env state =
     (case retrieve env state of
        Inr docs \<Rightarrow> [Set_retrieved_docs docs, Set_current_step ''retrieval'']
      | Inl e \<Rightarrow> [Set_retrieved_docs [], Set_current_step ''retrieval''])"

subsection \<open>quiz_generator_node\<close>

text \<open>At most the first three documents, each cut to 500 characters.\<close>

definition context_parts :: "retrieved_document list option \<Rightarrow> string list" where
  "context_parts docs_opt =
     (case docs_opt of
        None \<Rightarrow> []
      | Some docs \<Rightarrow> map (\<lambda>doc. take 500 (content doc)) (take 3 docs))"

definition quiz_generator_node :: "env \<Rightarrow> study_flow_state \<Rightarrow> update" where
  "quiz_generator_node env state =
     (case (case learning_plan state of
              None \<Rightarrow> Inl ValueError
            | Some plan \<Rightarrow>
                (case get_chat_model env of
                   Inl e \<Rightarrow> Inl e
                 | Inr model \<Rightarrow> invoke_quiz model plan (context_parts (retrieved_docs state)))) of
        Inr quiz_response \<Rightarrow>
          [Set_quiz \<lparr>questions = questions quiz_response,
                     total_points = total_points quiz_response,
                     time_limit = time_limit quiz_response\<rparr>,
           Set_current_step ''quiz_generated'']
      | Inl e \<Rightarrow>
          [Set_error (''quiz_generator'', e), Set_error_node ''quiz_generator'',
           Set_current_step ''quiz_error''])"

subsection \<open>grading_node\<close>

text \<open>The two words the parser looks for, as UTF-8: the word for score and the word for comment.\<close>

definition score_word :: string where
  "score_word = [CHR 0xE5, CHR 0xBE, CHR 0x97, CHR 0xE5, CHR 0x88, CHR 0x86]"

definition comment_word :: string where
  "comment_word = [CHR 0xE8, CHR 0xAF, CHR 0x84, CHR 0xE8, CHR 0xAF, CHR 0xAD]"

text \<open>
  The inner \<^verbatim>\<open>try\<close> of the short-answer branch: the first line naming the score, its
  digits read as one number and clamped, then the first line naming the comment, cut after
  its colon. \<^verbatim>\<open>[0]\<close> of an empty list and \<^verbatim>\<open>[1]\<close> of a one-piece split raise
  IndexError, \<^verbatim>\<open>int('')\<close> raises ValueError.
\<close>

definition parse_grading :: "string \<Rightarrow> int \<Rightarrow> exn + (int \<times> commentary)" where
  "parse_grading response_text possible =
     (let lines = split_on (CHR 0x0A) (strip response_text)
      in case filter (\<lambda>l. substring score_word l \<or> substring ''score'' (lower l)) lines of
           [] \<Rightarrow> Inl IndexError
         | score_line # _ \<Rightarrow>
             (let digits = filter isdigit score_line
              in if digits = [] then Inl ValueError
                 else
                   (let points_earned = min (max (int_of_digits digits) 0) possible
                    in case filter (\<lambda>l. substring comment_word l \<or> substring ''feedback'' (lower l))
                              lines of
                         [] \<Rightarrow> Inr (points_earned, ModelComment response_text)
                       | feedback_line # _ \<Rightarrow>
                           (case after_colon feedback_line of
                              None \<Rightarrow> Inl IndexError
                            | Some rest \<Rightarrow> Inr (points_earned, ModelComment (strip rest))))))"

text \<open>
  The \<^verbatim>\<open>except\<close> of that \<^verbatim>\<open>try\<close>: the first five words of the standard answer, each
  looked for in the user's answer, both lowered. With no word at all the division raises.
\<close>

definition keywords_of :: "string \<Rightarrow> string list" where
  "keywords_of correct = take 5 (split (lower correct))"

definition count_matched :: "string list \<Rightarrow> string \<Rightarrow> nat" where
  "count_matched keywords given = length (filter (\<lambda>kw. substring kw (lower given)) keywords)"

definition keyword_fallback :: "string \<Rightarrow> string \<Rightarrow> int \<Rightarrow> exn + (int \<times> commentary)" where
  "keyword_fallback correct given possible =
     (let keywords = keywords_of correct;
          matched = count_matched keywords given
      in if keywords = [] then Inl ZeroDivisionError
         else Inr (py_int (float_times_int (true_div (int matched) (int (length keywords)))
                                           possible),
                   KeywordMatch correct))"

text \<open>One pass of the loop body: the detail of one question, or the exception that leaves the loop.\<close>

definition grade_question ::
  "chat_model \<Rightarrow> (string \<times> string) list \<Rightarrow> quiz_question \<Rightarrow> exn + score_detail" where
  "grade_question model answers q =
     (let q_id = q_id q;
          q_type = q_type q;
          correct_answer = answer q;
          points_possible = points q;
          user_answer = strip (case map_of answers q_id of None \<Rightarrow> [] | Some a \<Rightarrow> a)
      in case
           (if q_type = ''multiple_choice'' then
              (let is_correct = (upper user_answer = upper correct_answer)
               in Inr (is_correct, if is_correct then points_possible else 0,
                       if is_correct then AnsweredRight else AnsweredWrong correct_answer))
            else if q_type = ''fill_blank'' then
              (let is_correct = (lower user_answer = lower correct_answer)
               in Inr (is_correct, if is_correct then points_possible else 0,
                       if is_correct then AnsweredRight else AnsweredWrong correct_answer))
            else if q_type = ''short_answer'' then
              (case invoke_grading model (question q, correct_answer, user_answer, points_possible) of
                 Inl e \<Rightarrow> Inl e
               | Inr response_text \<Rightarrow>
                   (case (case parse_grading response_text points_possible of
                            Inr parsed \<Rightarrow> Inr parsed
                          | Inl parse_error \<Rightarrow>
                              keyword_fallback correct_answer user_answer points_possible) of
                      Inl e \<Rightarrow> Inl e
                    | Inr (earned, comment) \<Rightarrow>
                        Inr (float_times_int (fl (3 / 5)) points_possible \<le> of_int earned,
                             earned, comment)))
            else Inr (False, 0, UnknownType)) of
           Inl e \<Rightarrow> Inl e
         | Inr (correct, earned, comment) \<Rightarrow>
             Inr \<lparr>question_id = q_id, user_answer = user_answer,
                  correct_answer = correct_answer, is_correct = correct,
                  points_earned = earned, points_possible = points_possible,
                  detail_feedback = comment\<rparr>)"

text \<open>The loop, with its three accumulators: the details, the points earned, the count of correct ones.\<close>

fun grade_questions ::
  "chat_model \<Rightarrow> (string \<times> string) list \<Rightarrow> quiz_question list
   \<Rightarrow> score_detail list \<times> int \<times> nat \<Rightarrow> exn + score_detail list \<times> int \<times> nat" where
  "grade_questions model answers [] acc = Inr acc"
| "grade_questions model answers (q # qs) (details, total_earned, count) =
     (case grade_question model answers q of
        Inl e \<Rightarrow> Inl e
      | Inr detail \<Rightarrow>
          grade_questions model answers qs
            (details @ [detail], total_earned + points_earned detail,
             if is_correct detail then count + 1 else count))"

text \<open>\<^verbatim>\<open>int((total_earned / total_points) * 100) if total_points > 0 else 0\<close>\<close>

definition percent_score :: "int \<Rightarrow> int \<Rightarrow> int" where
  "percent_score earned out_of =
     (if 0 < out_of then py_int (float_times_int (true_div earned out_of) 100) else 0)"

text \<open>
  The body of the \<^verbatim>\<open>try\<close>. \<^verbatim>\<open>not quiz\<close> holds of \<open>None\<close> (a quiz dict has keys);
  \<^verbatim>\<open>not user_answers\<close> holds of \<open>None\<close> and of the empty dict.
\<close>

definition grade :: "env \<Rightarrow> study_flow_state \<Rightarrow> exn + int \<times> score_details" where
  "grade env state =
     (case quiz state of
        None \<Rightarrow> Inl ValueError
      | Some qz \<Rightarrow>
          (case user_answers state of
             None \<Rightarrow> Inl ValueError
           | Some answers \<Rightarrow>
               if answers = [] then Inl ValueError
               else
                 (case get_chat_model env of
                    Inl e \<Rightarrow> Inl e
                  | Inr model \<Rightarrow>
                      (case grade_questions model answers (questions qz) ([], 0, 0) of
                         Inl e \<Rightarrow> Inl e
                       | Inr (details, total_earned, count) \<Rightarrow>
                           Inr (percent_score total_earned (total_points qz),
                                \<lparr>correct_count = count,
                                 total_count = length (questions qz),
                                 question_scores = details\<rparr>)))))"

definition grading_node :: "env \<Rightarrow> study_flow_state \<Rightarrow> update" where
  "grading_node env state =
     (case grade env state of
        Inr (percent, details) \<Rightarrow>
          [Set_score percent, Set_score_details details, Set_current_step ''grading'']
      | Inl e \<Rightarrow>
          [Set_error (''grading'', e), Set_error_node ''grading'',
           Set_current_step ''grading_error''])"

subsection \<open>feedback_node\<close>

text \<open>
  The body of the \<^verbatim>\<open>try\<close>, in the order the source evaluates it: \<^verbatim>\<open>.get\<close> on a
  \<^verbatim>\<open>score_details\<close> or a \<^verbatim>\<open>learning_plan\<close> that is \<open>None\<close> raises AttributeError before
  the model is called, \<^verbatim>\<open>score < 60\<close> on a \<open>None\<close> score raises TypeError after it.
\<close>

definition give_feedback :: "env \<Rightarrow> study_flow_state \<Rightarrow> exn + string \<times> bool \<times> int" where
  "give_feedback env state =
     (let retry_count = retry_count state
      in case get_chat_model env of
           Inl e \<Rightarrow> Inl e
         | Inr model \<Rightarrow>
             (case score_details state of
                None \<Rightarrow> Inl AttributeError
              | Some details \<Rightarrow>
                  (case learning_plan state of
                     None \<Rightarrow> Inl AttributeError
                   | Some plan \<Rightarrow>
                       (case invoke_feedback model (plan, score state, details) of
                          Inl e \<Rightarrow> Inl e
                        | Inr reply \<Rightarrow>
                            (case score state of
                               None \<Rightarrow> Inl TypeError
                             | Some sc \<Rightarrow>
                                 (let should_retry = (sc < 60 \<and> retry_count < 3);
                                      new_retry_count =
                                        (if should_retry then retry_count + 1 else retry_count)
                                  in Inr (reply, should_retry, new_retry_count)))))))"

definition feedback_node :: "env \<Rightarrow> study_flow_state \<Rightarrow> update" where
  "feedback_node env state =
     (case give_feedback env state of
        Inr (reply, retry, new_retry_count) \<Rightarrow>
          [Set_feedback reply, Set_should_retry retry, Set_retry_count new_retry_count,
           Set_current_step ''feedback'']
      | Inl e \<Rightarrow>
          [Set_error (''feedback'', e), Set_error_node ''feedback'',
           Set_current_step ''feedback_error''])"

subsection \<open>The routing function (study_flow_graph.py)\<close>

datatype route = Retry | End

definition should_continue :: "study_flow_state \<Rightarrow> route" where
  "should_continue state =
     (let should_retry = should_retry state;
          retry_count = retry_count state
      in if should_retry \<and> retry_count < 3 then Retry else End)"

subsection \<open>The graph (create_study_flow_graph)\<close>

datatype node = Planner | Retrieval | Quiz_generator | Human_review | Grading | Feedback

definition human_review_node :: "study_flow_state \<Rightarrow> update" where
  "human_review_node state = [Set_current_step ''waiting_for_answers'']"

fun run_node :: "env \<Rightarrow> node \<Rightarrow> study_flow_state \<Rightarrow> update" where
  "run_node env Planner state = planner_node env state"
| "run_node env Retrieval state = retrieval_node env state"
| "run_node env Quiz_generator state = quiz_generator_node env state"
| "run_node env Human_review state = human_review_node state"
| "run_node env Grading state = grading_node env state"
| "run_node env Feedback state = feedback_node env state"

text \<open>
  The edges: five fixed ones and the conditional one after \<open>Feedback\<close>, decided by
  \<open>should_continue\<close> on the state that holds the update of \<open>Feedback\<close>; \<open>None\<close> is END.
\<close>

fun successor :: "node \<Rightarrow> study_flow_state \<Rightarrow> node option" where
  "successor Planner state = Some Retrieval"
| "successor Retrieval state = Some Quiz_generator"
| "successor Quiz_generator state = Some Human_review"
| "successor Human_review state = Some Grading"
| "successor Grading state = Some Feedback"
| "successor Feedback state =
     (case should_continue state of Retry \<Rightarrow> Some Quiz_generator | End \<Rightarrow> None)"

definition entry_point :: node where
  "entry_point = Planner"

definition interrupt_before :: "node list" where
  "interrupt_before = [Human_review]"

subsection \<open>Running the compiled graph\<close>

text \<open>
  A checkpoint is the state and the node to run next. One step runs that node on the
  state, merges its update and follows the edge. The loop saves a checkpoint after each
  step; it stops at END, and before a node of \<open>interrupt_before\<close> unless the run is a
  resumption that starts at that node. The fuel is the recursion limit of the graph
  library, 25 steps for one call, beyond which the call raises.
\<close>

record checkpoint =
  cp_values :: study_flow_state
  cp_next :: "node option"

definition recursion_limit :: nat where
  "recursion_limit = 25"

definition superstep :: "env \<Rightarrow> node \<Rightarrow> study_flow_state \<Rightarrow> checkpoint" where
  "superstep env n state =
     (let state' = merge state (run_node env n state)
      in \<lparr>cp_values = state', cp_next = successor n state'\<rparr>)"

fun pregel_loop ::
  "env \<Rightarrow> nat \<Rightarrow> bool \<Rightarrow> checkpoint \<Rightarrow> checkpoint list \<Rightarrow> exn + checkpoint \<times> checkpoint list" where
  "pregel_loop env 0 resuming cp older =
     (case cp_next cp of
        None \<Rightarrow> Inr (cp, older)
      | Some n \<Rightarrow>
          if n \<in> set interrupt_before \<and> \<not> resuming then Inr (cp, older)
          else Inl GraphRecursionError)"
| "pregel_loop env (Suc fuel) resuming cp older =
     (case cp_next cp of
        None \<Rightarrow> Inr (cp, older)
      | Some n \<Rightarrow>
          if n \<in> set interrupt_before \<and> \<not> resuming then Inr (cp, older)
          else pregel_loop env fuel False (superstep env n (cp_values cp)) (cp # older))"

text \<open>The checkpointer: for each thread its checkpoints, the newest first.\<close>

type_synonym store = "string \<Rightarrow> checkpoint list"

definition empty_store :: store where
  "empty_store = (\<lambda>tid. [])"

subsection \<open>start_study_flow and submit_answers\<close>

definition initial_state :: "string \<Rightarrow> string \<Rightarrow> study_flow_state" where
  "initial_state uq tid =
     \<lparr>user_question = uq, learning_plan = None, retrieved_docs = None, quiz = None,
      user_answers = None, score = None, score_details = None, feedback = None,
      retry_count = 0, should_retry = False, current_step = ''start'', thread_id = tid,
      error = None, error_node = None\<rparr>"

definition start_study_flow ::
  "env \<Rightarrow> string \<Rightarrow> string \<Rightarrow> store \<Rightarrow> exn + study_flow_state \<times> store" where
  "start_study_flow env uq tid st =
     (case pregel_loop env recursion_limit False
             \<lparr>cp_values = initial_state uq tid, cp_next = Some entry_point\<rparr> (st tid) of
        Inl e \<Rightarrow> Inl e
      | Inr (final, older) \<Rightarrow> Inr (cp_values final, st(tid := final # older)))"

text \<open>
  \<^verbatim>\<open>update_state\<close> writes the answers into a new checkpoint with the same next node,
  and \<^verbatim>\<open>invoke(None, config)\<close> resumes from it.

  Modelled from the spec: on a thread without a checkpoint the call fails with
  \<open>NotFoundError\<close>; what the checkpoint library does there is not part of the sources.
\<close>

definition submit_answers ::
  "env \<Rightarrow> string \<Rightarrow> (string \<times> string) list \<Rightarrow> store \<Rightarrow> exn + study_flow_state \<times> store" where
  "submit_answers env tid answers st =
     (case st tid of
        [] \<Rightarrow> Inl NotFoundError
      | cp # older \<Rightarrow>
          (case pregel_loop env recursion_limit True
                  (cp\<lparr>cp_values := merge (cp_values cp) [Set_user_answers answers]\<rparr>)
                  (cp # older) of
             Inl e \<Rightarrow> Inl e
           | Inr (final, hist) \<Rightarrow> Inr (cp_values final, st(tid := final # hist))))"

text \<open>
  A session: one start, then any number of submissions on the same thread, each with
  the capabilities as they are at that time.
\<close>

fun resume_all ::
  "(env \<times> (string \<times> string) list) list \<Rightarrow> string \<Rightarrow> study_flow_state \<times> store
   \<Rightarrow> exn + study_flow_state \<times> store" where
  "resume_all [] tid r = Inr r"
| "resume_all ((env, answers) # rest) tid r =
     (case submit_answers env tid answers (snd r) of
        Inl e \<Rightarrow> Inl e
      | Inr r' \<Rightarrow> resume_all rest tid r')"

definition session ::
  "env \<Rightarrow> string \<Rightarrow> string \<Rightarrow> store \<Rightarrow> (env \<times> (string \<times> string) list) list
   \<Rightarrow> exn + study_flow_state \<times> store" where
  "session env uq tid st submissions =
     (case start_study_flow env uq tid st of
        Inl e \<Rightarrow> Inl e
      | Inr r \<Rightarrow> resume_all submissions tid r)"

subsection \<open>The bound of the retry counter\<close>

definition retry_ok :: "study_flow_state \<Rightarrow> bool" where
  "retry_ok s = (0 \<le> retry_count s \<and> retry_count s \<le> 3)"

subsection \<open>Example capabilities, quizzes and states\<close>

text \<open>Concrete inputs, used where a property is evaluated on one.\<close>

definition demo_plan :: learning_plan where
  "demo_plan =
     \<lparr>topic = ''python basics'', objectives = [''variables'', ''types'', ''loops''],
      key_points = [''int'', ''str'', ''list'', ''if'', ''for''],
      difficulty = ''beginner'', estimated_time = 30\<rparr>"

definition mc :: "string \<Rightarrow> string \<Rightarrow> int \<Rightarrow> quiz_question" where
  "mc i a p =
     \<lparr>q_id = i, q_type = ''multiple_choice'', question = ''pick one'',
      options = Some [''A'', ''B'', ''C'', ''D''], answer = a, explanation = ''see the notes'',
      points = p\<rparr>"

definition thirds_quiz :: quiz where
  "thirds_quiz =
     \<lparr>questions = [mc ''q1'' ''A'' 1, mc ''q2'' ''B'' 1, mc ''q3'' ''C'' 1],
      total_points = 3, time_limit = 10\<rparr>"

definition demo_model :: chat_model where
  "demo_model =
     \<lparr>invoke_plan = (\<lambda>q. Inr demo_plan),
      invoke_quiz = (\<lambda>plan parts. Inr thirds_quiz),
      invoke_grading = (\<lambda>prompt. Inr ''no idea''),
      invoke_feedback = (\<lambda>prompt. Inr ''keep going'')\<rparr>"

definition demo_env :: env where
  "demo_env =
     \<lparr>get_chat_model = Inr demo_model, get_embeddings = None,
      load_index = Inl FileNotFoundError\<rparr>"






subsection \<open>Exact-match grading, as the specification words it\<close>






definition failing_answers :: "(string \<times> string) list" where
  "failing_answers = [(''q1'', ''D''), (''q2'', ''D''), (''q3'', ''D'')]"

section \<open>Auxiliary facts\<close>

subsection \<open>Rounding to a double\<close>

declare bit_length.simps [simp del]












lemma round_half_even_of_int [simp]: "round_half_even (of_int j) = j"
  by (simp add: round_half_even_def)

lemma fl_zero [simp]: "fl 0 = 0"
  by (simp add: fl_def)







subsection \<open>The grading loop\<close>





subsection \<open>Comparison without regard to case\<close>







lemma strip_Nil [simp]: "strip [] = []"
  by (simp add: strip_def)


subsection \<open>Quizzes of exact-match questions\<close>



subsection \<open>Unfolding a run of the graph\<close>

lemma superstep_values [simp]: "cp_values (superstep env n s) = merge s (run_node env n s)"
  by (simp add: superstep_def Let_def)

lemma superstep_next [simp]:
  "cp_next (superstep env n s) = successor n (merge s (run_node env n s))"
  by (simp add: superstep_def Let_def)


lemma pregel_loop_end:
  "cp_next cp = None \<Longrightarrow> pregel_loop env fuel resuming cp older = Inr (cp, older)"
  by (cases fuel) simp_all

lemma pregel_loop_step:
  "cp_next cp = Some n \<Longrightarrow> n \<noteq> Human_review \<or> resuming \<Longrightarrow>
   pregel_loop env (Suc fuel) resuming cp older
   = pregel_loop env fuel False (superstep env n (cp_values cp)) (cp # older)"
  by (auto simp add: interrupt_before_def)





subsection \<open>Invariants of a run and of a session\<close>

lemma pregel_loop_invariant:
  assumes step: "\<And>n s. P s \<Longrightarrow> P (cp_values (superstep env n s))"
    and run: "pregel_loop env fuel resuming cp older = Inr (final, hist)"
    and cp: "P (cp_values cp)"
    and older: "\<forall>c \<in> set older. c \<in> B \<or> P (cp_values c)"
  shows "P (cp_values final) \<and> (\<forall>c \<in> set hist. c \<in> B \<or> P (cp_values c))"
  using run cp older
proof (induction fuel arbitrary: resuming cp older)
  case 0
  then show ?case
    by (auto split: option.splits if_splits)
next
  case (Suc fuel)
  show ?case
  proof (cases "cp_next cp")
    case None
    with Suc.prems show ?thesis by auto
  next
    case (Some n)
    show ?thesis
    proof (cases "n \<in> set interrupt_before \<and> \<not> resuming")
      case True
      with Some Suc.prems show ?thesis by auto
    next
      case False
      with Some Suc.prems(1) have
        r: "pregel_loop env fuel False (superstep env n (cp_values cp)) (cp # older)
            = Inr (final, hist)"
        by auto
      have p: "P (cp_values (superstep env n (cp_values cp)))"
        using Suc.prems(2) by (rule step)
      have o: "\<forall>c \<in> set (cp # older). c \<in> B \<or> P (cp_values c)"
        using Suc.prems(2,3) by simp
      from Suc.IH [OF r p o] show ?thesis .
    qed
  qed
qed

lemma feedback_retry_count:
  "retry_count (merge s (feedback_node env s))
   = (if Set_should_retry True \<in> set (feedback_node env s) then retry_count s + 1
      else retry_count s)"
  by (auto simp add: feedback_node_def give_feedback_def merge_def Let_def
           split: sum.splits option.splits)

lemma feedback_retry_ok: "retry_ok s \<Longrightarrow> retry_ok (merge s (feedback_node env s))"
  by (auto simp add: retry_ok_def feedback_node_def give_feedback_def merge_def Let_def
           split: sum.splits option.splits)

lemma superstep_retry_ok: "retry_ok s \<Longrightarrow> retry_ok (cp_values (superstep env n s))"
proof (cases n)
  case Feedback
  assume "retry_ok s"
  then show ?thesis
    using feedback_retry_ok [of s env] by (simp add: Feedback)
qed (auto simp add: retry_ok_def merge_def planner_node_def retrieval_node_def
       quiz_generator_node_def human_review_node_def grading_node_def
       split: sum.splits option.splits)


lemma start_study_flow_invariant:
  assumes step: "\<And>n s. P s \<Longrightarrow> P (cp_values (superstep env n s))"
    and init: "P (initial_state uq tid)"
    and run: "start_study_flow env uq tid st = Inr (s, st')"
  shows "\<exists>final hist. st' tid = final # hist \<and> s = cp_values final \<and> P s
           \<and> (\<forall>c \<in> set hist. c \<in> set (st tid) \<or> P (cp_values c))"
proof -
  from run obtain final hist where
    r: "pregel_loop env recursion_limit False
          \<lparr>cp_values = initial_state uq tid, cp_next = Some entry_point\<rparr> (st tid)
        = Inr (final, hist)"
    and s: "s = cp_values final" and st': "st' = st(tid := final # hist)"
    by (auto simp add: start_study_flow_def split: sum.splits)
  from pregel_loop_invariant [of P env, OF step r, of "set (st tid)"] init
  have "P (cp_values final) \<and> (\<forall>c \<in> set hist. c \<in> set (st tid) \<or> P (cp_values c))"
    by simp
  with s st' show ?thesis by simp
qed

lemma submit_answers_invariant:
  assumes step: "\<And>n s. P s \<Longrightarrow> P (cp_values (superstep env n s))"
    and ans: "\<And>s. P s \<Longrightarrow> P (merge s [Set_user_answers answers])"
    and st: "st tid = final # hist" "P (cp_values final)"
            "\<forall>c \<in> set hist. c \<in> B \<or> P (cp_values c)"
    and run: "submit_answers env tid answers st = Inr (s', st')"
  shows "\<exists>final' hist'. st' tid = final' # hist' \<and> s' = cp_values final' \<and> P s'
           \<and> (\<forall>c \<in> set hist'. c \<in> B \<or> P (cp_values c))"
proof -
  from run st(1) obtain final' hist' where
    r: "pregel_loop env recursion_limit True
          (final\<lparr>cp_values := merge (cp_values final) [Set_user_answers answers]\<rparr>)
          (final # hist)
        = Inr (final', hist')"
    and s: "s' = cp_values final'" and st': "st' = st(tid := final' # hist')"
    by (auto simp add: submit_answers_def split: sum.splits)
  have p: "P (cp_values (final\<lparr>cp_values := merge (cp_values final) [Set_user_answers answers]\<rparr>))"
    using ans [OF st(2)] by simp
  have o: "\<forall>c \<in> set (final # hist). c \<in> B \<or> P (cp_values c)"
    using st(2,3) by simp
  from pregel_loop_invariant [of P env, OF step r p o]
  show ?thesis using s st' by simp
qed

lemma resume_all_invariant:
  assumes step: "\<And>env n s. P s \<Longrightarrow> P (cp_values (superstep env n s))"
    and ans: "\<And>s answers. P s \<Longrightarrow> P (merge s [Set_user_answers answers])"
    and st: "snd r tid = final # hist" "P (cp_values final)"
            "\<forall>c \<in> set hist. c \<in> B \<or> P (cp_values c)" "fst r = cp_values final"
    and run: "resume_all submissions tid r = Inr (s', st')"
  shows "P s' \<and> (\<forall>c \<in> set (st' tid). c \<in> B \<or> P (cp_values c))"
  using st run
proof (induction submissions arbitrary: r final hist)
  case Nil
  then show ?case by (cases r) auto
next
  case (Cons sub submissions)
  obtain env answers where sub: "sub = (env, answers)" by (cases sub)
  from Cons.prems(5) sub obtain r' where
    r': "submit_answers env tid answers (snd r) = Inr r'"
    and rest: "resume_all submissions tid r' = Inr (s', st')"
    by (auto split: sum.splits)
  obtain s1 st1 where r1: "r' = (s1, st1)" by (cases r')
  from submit_answers_invariant [of P env answers "snd r" tid final hist B s1 st1,
      OF step ans Cons.prems(1,2,3)] r' r1
  obtain final' hist' where
    f: "st1 tid = final' # hist'" "s1 = cp_values final'" "P s1"
       "\<forall>c \<in> set hist'. c \<in> B \<or> P (cp_values c)"
    by auto
  show ?case
    using Cons.IH [of r' final' hist'] f rest r1 by simp
qed

lemma session_invariant:
  assumes step: "\<And>env n s. P s \<Longrightarrow> P (cp_values (superstep env n s))"
    and ans: "\<And>s answers. P s \<Longrightarrow> P (merge s [Set_user_answers answers])"
    and init: "P (initial_state uq tid)"
    and run: "session env uq tid st submissions = Inr (s, st')"
  shows "P s \<and> (\<forall>c \<in> set (st' tid). c \<in> set (st tid) \<or> P (cp_values c))"
proof -
  from run obtain r where
    r: "start_study_flow env uq tid st = Inr r"
    and rest: "resume_all submissions tid r = Inr (s, st')"
    by (auto simp add: session_def split: sum.splits)
  obtain s1 st1 where r1: "r = (s1, st1)" by (cases r)
  from start_study_flow_invariant [of P env uq tid st s1 st1, OF step init] r r1
  obtain final hist where
    f: "st1 tid = final # hist" "s1 = cp_values final" "P s1"
       "\<forall>c \<in> set hist. c \<in> set (st tid) \<or> P (cp_values c)"
    by auto
  show ?thesis
    using resume_all_invariant [of P r tid final hist "set (st tid)" submissions s st',
        OF step ans] f rest r1
    by simp
qed

section \<open>Properties\<close>

text \<open>
  C2. The routing function is a function of the state alone (it reads
  \<open>should_retry\<close> and \<open>retry_count\<close> and nothing else, so two states that agree on
  both get the same answer); it answers \<open>Retry\<close> exactly when \<open>should_retry\<close> holds
  and \<open>retry_count < 3\<close>, and \<open>End\<close> in every other case.
\<close>

theorem should_continue_rule:
  "(should_continue s = Retry) = (should_retry s \<and> retry_count s < 3)
   \<and> (should_continue s = End) = (\<not> (should_retry s \<and> retry_count s < 3))
   \<and> should_continue (s\<lparr>should_retry := b, retry_count := n\<rparr>)
       = should_continue (s'\<lparr>should_retry := b, retry_count := n\<rparr>)"
  by (simp add: should_continue_def)










text \<open>
  C8. When the quiz or the answers are absent, grading fails before any question is
  looked at: the node raises nothing, it returns the update that carries the error, the
  error node \<open>grading\<close> and the step \<open>grading_error\<close>, and no score (the score and the
  score details of the state stay what they were). The exception is Python's ValueError.
\<close>

theorem grading_precondition:
  assumes "quiz state = None \<or> user_answers state = None"
  shows "grading_node env state
         = [Set_error (''grading'', ValueError), Set_error_node ''grading'',
            Set_current_step ''grading_error'']
       \<and> score (merge state (grading_node env state)) = score state
       \<and> score_details (merge state (grading_node env state)) = score_details state
       \<and> error (merge state (grading_node env state)) = Some (''grading'', ValueError)
       \<and> error_node (merge state (grading_node env state)) = Some ''grading''
       \<and> current_step (merge state (grading_node env state)) = ''grading_error''"
proof -
  have "grade env state = Inl ValueError"
    using assms by (auto simp add: grade_def split: option.splits)
  then show ?thesis by (simp add: grading_node_def merge_def)
qed

theorem grading_precondition_witness:
  "quiz (initial_state ''teach me python'' ''t1'') = None
   \<and> grading_node demo_env (initial_state ''teach me python'' ''t1'')
       = [Set_error (''grading'', ValueError), Set_error_node ''grading'',
          Set_current_step ''grading_error'']
   \<and> score (merge (initial_state ''teach me python'' ''t1'')
               (grading_node demo_env (initial_state ''teach me python'' ''t1''))) = None"
proof -
  have q: "quiz (initial_state ''teach me python'' ''t1'') = None"
    by (simp add: initial_state_def)
  have s: "score (initial_state ''teach me python'' ''t1'') = None"
    by (simp add: initial_state_def)
  from q have "quiz (initial_state ''teach me python'' ''t1'') = None
      \<or> user_answers (initial_state ''teach me python'' ''t1'') = None" ..
  from grading_precondition [OF this, of demo_env] q s show ?thesis
    by (auto simp add: merge_def)
qed






text \<open>
  C3. In every session (a start and any submissions, whatever the capabilities do each
  time) the retry counter of the returned state lies between 0 and 3, and so does the
  counter of every checkpoint the session added to its thread. The routing function
  never answers \<open>Retry\<close> on a state whose counter is 3 (or more). The feedback node
  raises the counter, by one, exactly when its update says \<open>should_retry = True\<close>, and
  leaves it alone otherwise.
\<close>

theorem retry_count_bounded:
  assumes "session env uq tid st submissions = Inr (state, st')"
  shows "retry_ok state
       \<and> (\<forall>c \<in> set (st' tid). c \<in> set (st tid) \<or> retry_ok (cp_values c))
       \<and> (3 \<le> retry_count s \<longrightarrow> should_continue s = End)
       \<and> retry_count (merge s (feedback_node env' s))
          = (if Set_should_retry True \<in> set (feedback_node env' s) then retry_count s + 1
             else retry_count s)"
proof -
  have init: "retry_ok (initial_state uq tid)"
    by (simp add: retry_ok_def initial_state_def)
  have ans: "\<And>s answers. retry_ok s \<Longrightarrow> retry_ok (merge s [Set_user_answers answers])"
    by (simp add: retry_ok_def merge_def)
  from session_invariant [of retry_ok, OF superstep_retry_ok ans init assms]
  show ?thesis
    by (simp add: feedback_retry_count should_continue_def)
qed


theorem retry_count_bounded_witness:
  "\<not> isl (session demo_env ''teach me python'' ''t1'' empty_store [(demo_env, failing_answers)])
   \<and> retry_ok (fst (projr (session demo_env ''teach me python'' ''t1'' empty_store
                              [(demo_env, failing_answers)])))
   \<and> map_sum id (retry_count \<circ> fst)
        (session demo_env ''teach me python'' ''t1'' empty_store [(demo_env, failing_answers)])
       = Inr 1"
proof -
  define X where
    "X = session demo_env ''teach me python'' ''t1'' empty_store [(demo_env, failing_answers)]"
  have n: "\<not> isl X" unfolding X_def by code_simp
  then have e: "X = Inr (fst (projr X), snd (projr X))" by (cases X) auto
  from retry_count_bounded [OF e [unfolded X_def]] have "retry_ok (fst (projr X))"
    unfolding X_def by blast
  moreover have "map_sum id (retry_count \<circ> fst) X = Inr 1" unfolding X_def by code_simp
  ultimately show ?thesis using n unfolding X_def by simp
qed

end
